theory Spec2Isabelle
  imports Main "HOL-Library.Word"
begin

section \<open>Python values\<close>

text \<open>
  A Python \<open>str\<close> is a sequence of Unicode code points, a \<open>bytes\<close> object a sequence
  of octets. String literals of the source are written \<open>S ''...''\<close>.
\<close>

type_synonym str = "nat list"
type_synonym bytes = "8 word list"

abbreviation ord :: "char \<Rightarrow> nat" where
  "ord \<equiv> of_char"

definition S :: "string \<Rightarrow> str" where
  "S cs = map of_char cs"

text \<open>
  The exceptions that the module and the library calls it makes can raise.
  \<open>JSONDecodeError\<close> and \<open>UnicodeEncodeError\<close> are subclasses of \<open>ValueError\<close> in
  Python; they are kept apart here so that the origin of a failure stays visible.
\<close>

datatype error =
    TypeError
  | ValueError
  | NotImplementedError
  | AttributeError
  | JSONDecodeError
  | UnicodeEncodeError
  | RecursionError

text \<open>
  The Python objects that reach the module: what \<open>json.loads\<close> builds, \<open>bytes\<close>, and
  the named tuple \<open>AsciiCastTheme\<close>. The type \<open>'f\<close> stands for Python's \<open>float\<close>.
  A \<open>dict\<close> keeps its items in insertion order, with keys that are strings.
\<close>

datatype 'f pyval =
    PNone
  | PBool bool
  | PInt int
  | PFloat 'f
  | PStr str
  | PBytes bytes
  | PList "'f pyval list"
  | PDict "(str \<times> 'f pyval) list"
  | PTheme "'f pyval" "'f pyval" "'f pyval"

datatype pytype =
    T_NoneType | T_bool | T_int | T_float | T_str | T_bytes | T_list | T_dict
  | T_AsciiCastTheme

text \<open>\<open>type(x)\<close>: the exact runtime type; \<open>bool\<close> is a type of its own.\<close>

fun type_of :: "'f pyval \<Rightarrow> pytype" where
  "type_of PNone = T_NoneType"
| "type_of (PBool b) = T_bool"
| "type_of (PInt i) = T_int"
| "type_of (PFloat f) = T_float"
| "type_of (PStr s) = T_str"
| "type_of (PBytes b) = T_bytes"
| "type_of (PList xs) = T_list"
| "type_of (PDict kvs) = T_dict"
| "type_of (PTheme a b c) = T_AsciiCastTheme"

section \<open>Records\<close>

record 'f AsciiCastTheme =
  fg :: "'f pyval"
  bg :: "'f pyval"
  palette :: "'f pyval"

record 'f AsciiCastHeader =
  version :: int
  width :: int
  height :: int
  theme :: "'f AsciiCastTheme option"

datatype 'f number = IntNum int | FloatNum 'f

record 'f AsciiCastEvent =
  time :: "'f number"
  event_type :: str
  event_data :: bytes
  duration :: "'f number option"

datatype 'f AsciiCastRecord =
    Header "'f AsciiCastHeader"
  | Event "'f AsciiCastEvent"

text \<open>The class attribute \<open>types\<close> of \<open>AsciiCastHeader\<close> and of \<open>AsciiCastEvent\<close>.\<close>

definition header_types :: "string \<Rightarrow> pytype set" where
  "header_types attr =
     (if attr = ''version'' then {T_int}
      else if attr = ''width'' then {T_int}
      else if attr = ''height'' then {T_int}
      else if attr = ''theme'' then {T_NoneType, T_AsciiCastTheme}
      else {})"

definition event_types :: "string \<Rightarrow> pytype set" where
  "event_types attr =
     (if attr = ''time'' then {T_int, T_float}
      else if attr = ''event_type'' then {T_str}
      else if attr = ''event_data'' then {T_bytes}
      else if attr = ''duration'' then {T_NoneType, T_int, T_float}
      else {})"

text \<open>
  The loop of \<open>__new__\<close> over \<open>_fields\<close>: the first attribute whose exact type is not
  in its set raises \<open>TypeError\<close>.
\<close>

fun check_types :: "(string \<Rightarrow> pytype set) \<Rightarrow> (string \<times> 'f pyval) list \<Rightarrow> error option" where
  "check_types types [] = None"
| "check_types types ((attr, v) # rest) =
     (if type_of v \<notin> types attr then Some TypeError else check_types types rest)"

fun as_theme :: "'f pyval \<Rightarrow> 'f AsciiCastTheme option option" where
  "as_theme PNone = Some None"
| "as_theme (PTheme a b c) = Some (Some \<lparr>fg = a, bg = b, palette = c\<rparr>)"
| "as_theme _ = None"

fun as_number :: "'f pyval \<Rightarrow> 'f number option" where
  "as_number (PInt i) = Some (IntNum i)"
| "as_number (PFloat f) = Some (FloatNum f)"
| "as_number _ = None"

fun as_duration :: "'f pyval \<Rightarrow> 'f number option option" where
  "as_duration PNone = Some None"
| "as_duration (PInt i) = Some (Some (IntNum i))"
| "as_duration (PFloat f) = Some (Some (FloatNum f))"
| "as_duration _ = None"

text \<open>
  \<open>AsciiCastHeader.__new__\<close>: the type checks of all four attributes, then the check of
  the version. The fields of the tuple are read back at their checked types; the last
  branch cannot be reached after \<open>check_types\<close> has passed.
\<close>

definition AsciiCastHeader_new ::
  "'f pyval \<Rightarrow> 'f pyval \<Rightarrow> 'f pyval \<Rightarrow> 'f pyval \<Rightarrow> error + 'f AsciiCastHeader" where
  "AsciiCastHeader_new ver wid hgt thme =
     (case check_types header_types
             [(''version'', ver), (''width'', wid), (''height'', hgt), (''theme'', thme)] of
        Some e \<Rightarrow> Inl e
      | None \<Rightarrow>
          if ver \<noteq> PInt 2 then Inl ValueError
          else (case (ver, wid, hgt, as_theme thme) of
                  (PInt v, PInt w, PInt h, Some t) \<Rightarrow>
                    Inr \<lparr>version = v, width = w, height = h, theme = t\<rparr>
                | _ \<Rightarrow> Inl TypeError))"

text \<open>\<open>AsciiCastEvent.__new__\<close>: the type checks only.\<close>

definition AsciiCastEvent_new ::
  "'f pyval \<Rightarrow> 'f pyval \<Rightarrow> 'f pyval \<Rightarrow> 'f pyval \<Rightarrow> error + 'f AsciiCastEvent" where
  "AsciiCastEvent_new tm ety edata dur =
     (case check_types event_types
             [(''time'', tm), (''event_type'', ety), (''event_data'', edata), (''duration'', dur)] of
        Some e \<Rightarrow> Inl e
      | None \<Rightarrow>
          (case (as_number tm, ety, edata, as_duration dur) of
             (Some t, PStr s, PBytes b, Some d) \<Rightarrow>
               Inr \<lparr>time = t, event_type = s, event_data = b, duration = d\<rparr>
           | _ \<Rightarrow> Inl TypeError))"

section \<open>\<open>json.dumps\<close> with \<open>ensure_ascii=False\<close>\<close>

text \<open>The decimal digits of a natural number, and \<open>int.__repr__\<close>.\<close>

fun digits :: "nat \<Rightarrow> str" where
  "digits n = (if n < 10 then [48 + n] else digits (n div 10) @ [48 + n mod 10])"

declare digits.simps [simp del]

definition int_repr :: "int \<Rightarrow> str" where
  "int_repr i = (if i < 0 then ord CHR ''-'' # digits (nat (- i)) else digits (nat i))"

definition hex_digit :: "nat \<Rightarrow> nat" where
  "hex_digit d = (if d < 10 then 48 + d else 87 + d)"

text \<open>
  The table \<open>ESCAPE_DCT\<close>: the quote, the backslash and the control characters below
  U+0020 are escaped, every other code point is written as it is.
\<close>

definition escape_char :: "nat \<Rightarrow> str" where
  "escape_char c =
     (if c = 0x22 then [0x5C, 0x22]
      else if c = 0x5C then [0x5C, 0x5C]
      else if c = 0x08 then [0x5C, ord CHR ''b'']
      else if c = 0x0C then [0x5C, ord CHR ''f'']
      else if c = 0x0A then [0x5C, ord CHR ''n'']
      else if c = 0x0D then [0x5C, ord CHR ''r'']
      else if c = 0x09 then [0x5C, ord CHR ''t'']
      else if c < 0x20 then
        [0x5C, ord CHR ''u'', 48, 48, hex_digit (c div 16), hex_digit (c mod 16)]
      else [c])"

definition encode_basestring :: "str \<Rightarrow> str" where
  "encode_basestring s = 0x22 # concat (map escape_char s) @ [0x22]"

text \<open>
  The serialiser. \<open>floatstr\<close> is the host's rendering of a float (\<open>float.__repr__\<close>,
  or \<open>NaN\<close>, \<open>Infinity\<close>, \<open>-Infinity\<close>). Items are separated by a comma and a space,
  a key from its value by a colon and a space. A \<open>bytes\<close> object is not serialisable;
  a named tuple is written as a JSON array.
\<close>

fun json_dumps :: "('f \<Rightarrow> str) \<Rightarrow> 'f pyval \<Rightarrow> error + str"
  and dumps_items :: "('f \<Rightarrow> str) \<Rightarrow> 'f pyval list \<Rightarrow> error + str"
  and dumps_pairs :: "('f \<Rightarrow> str) \<Rightarrow> (str \<times> 'f pyval) list \<Rightarrow> error + str"
where
  "json_dumps fs PNone = Inr (S ''null'')"
| "json_dumps fs (PBool b) = Inr (if b then S ''true'' else S ''false'')"
| "json_dumps fs (PInt i) = Inr (int_repr i)"
| "json_dumps fs (PFloat f) = Inr (fs f)"
| "json_dumps fs (PStr s) = Inr (encode_basestring s)"
| "json_dumps fs (PBytes b) = Inl TypeError"
| "json_dumps fs (PList xs) =
     (case dumps_items fs xs of
        Inl e \<Rightarrow> Inl e
      | Inr body \<Rightarrow> Inr (S ''['' @ body @ S '']''))"
| "json_dumps fs (PDict kvs) =
     (case dumps_pairs fs kvs of
        Inl e \<Rightarrow> Inl e
      | Inr body \<Rightarrow> Inr (S ''{'' @ body @ S ''}''))"
| "json_dumps fs (PTheme a b c) =
     (case json_dumps fs a of
        Inl e \<Rightarrow> Inl e
      | Inr ja \<Rightarrow>
          (case json_dumps fs b of
             Inl e \<Rightarrow> Inl e
           | Inr jb \<Rightarrow>
               (case json_dumps fs c of
                  Inl e \<Rightarrow> Inl e
                | Inr jc \<Rightarrow> Inr (S ''['' @ ja @ S '', '' @ jb @ S '', '' @ jc @ S '']''))))"
| "dumps_items fs [] = Inr []"
| "dumps_items fs [x] = json_dumps fs x"
| "dumps_items fs (x # y # ys) =
     (case json_dumps fs x of
        Inl e \<Rightarrow> Inl e
      | Inr jx \<Rightarrow>
          (case dumps_items fs (y # ys) of
             Inl e \<Rightarrow> Inl e
           | Inr rest \<Rightarrow> Inr (jx @ S '', '' @ rest)))"
| "dumps_pairs fs [] = Inr []"
| "dumps_pairs fs [(k, v)] =
     (case json_dumps fs v of
        Inl e \<Rightarrow> Inl e
      | Inr jv \<Rightarrow> Inr (encode_basestring k @ S '': '' @ jv))"
| "dumps_pairs fs ((k, v) # p # ps) =
     (case json_dumps fs v of
        Inl e \<Rightarrow> Inl e
      | Inr jv \<Rightarrow>
          (case dumps_pairs fs (p # ps) of
             Inl e \<Rightarrow> Inl e
           | Inr rest \<Rightarrow> Inr (encode_basestring k @ S '': '' @ jv @ S '', '' @ rest)))"

section \<open>Encoding a header\<close>

text \<open>\<open>_asdict()\<close> of a theme and of a header, in the order of \<open>_fields\<close>.\<close>

definition theme_asdict :: "'f AsciiCastTheme \<Rightarrow> (str \<times> 'f pyval) list" where
  "theme_asdict t = [(S ''fg'', fg t), (S ''bg'', bg t), (S ''palette'', palette t)]"

text \<open>
  \<open>AsciiCastHeader.to_json_line\<close>: the item \<open>theme\<close> is the last of the dictionary; it
  is replaced by the theme's own dictionary, or deleted when the theme is \<open>None\<close>.
\<close>

definition header_to_json_line :: "('f \<Rightarrow> str) \<Rightarrow> 'f AsciiCastHeader \<Rightarrow> error + str" where
  "header_to_json_line fs h =
     (let attributes = [(S ''version'', PInt (version h)), (S ''width'', PInt (width h)),
                        (S ''height'', PInt (height h))]
      in case theme h of
           Some t \<Rightarrow> json_dumps fs (PDict (attributes @ [(S ''theme'', PDict (theme_asdict t))]))
         | None \<Rightarrow> json_dumps fs (PDict attributes))"

section \<open>\<open>json.loads\<close>\<close>

definition is_ws :: "nat \<Rightarrow> bool" where
  "is_ws c \<longleftrightarrow> c = 0x20 \<or> c = 0x09 \<or> c = 0x0A \<or> c = 0x0D"

definition skip_ws :: "str \<Rightarrow> str" where
  "skip_ws s = dropWhile is_ws s"

definition is_digit :: "nat \<Rightarrow> bool" where
  "is_digit c \<longleftrightarrow> 48 \<le> c \<and> c \<le> 57"

definition hex_val :: "nat \<Rightarrow> nat option" where
  "hex_val c =
     (if 48 \<le> c \<and> c \<le> 57 then Some (c - 48)
      else if 97 \<le> c \<and> c \<le> 102 then Some (c - 87)
      else if 65 \<le> c \<and> c \<le> 70 then Some (c - 55)
      else None)"

fun decode_uXXXX :: "str \<Rightarrow> (nat \<times> str) option" where
  "decode_uXXXX (a # b # c # d # rest) =
     (case (hex_val a, hex_val b, hex_val c, hex_val d) of
        (Some x, Some y, Some z, Some w) \<Rightarrow> Some (((x * 16 + y) * 16 + z) * 16 + w, rest)
      | _ \<Rightarrow> None)"
| "decode_uXXXX _ = None"

definition unescape :: "nat \<Rightarrow> nat option" where
  "unescape e =
     (if e = 0x22 then Some 0x22
      else if e = 0x5C then Some 0x5C
      else if e = ord CHR ''/'' then Some (ord CHR ''/'')
      else if e = ord CHR ''b'' then Some 0x08
      else if e = ord CHR ''f'' then Some 0x0C
      else if e = ord CHR ''n'' then Some 0x0A
      else if e = ord CHR ''r'' then Some 0x0D
      else if e = ord CHR ''t'' then Some 0x09
      else None)"

definition cons_chr :: "nat \<Rightarrow> error + (str \<times> str) \<Rightarrow> error + (str \<times> str)" where
  "cons_chr c r = (case r of Inl e \<Rightarrow> Inl e | Inr (s, rest) \<Rightarrow> Inr (c # s, rest))"

lemma decode_uXXXX_length: "decode_uXXXX s = Some (u, rest) \<Longrightarrow> length rest < length s"
  by (induction s rule: decode_uXXXX.induct) (auto split: option.splits)

function scanstring :: "str \<Rightarrow> error + (str \<times> str)" where
  "scanstring [] = Inl JSONDecodeError"
| "scanstring (c # cs) =
     (if c = 0x22 then Inr ([], cs)
      else if c = 0x5C then
        (case cs of
           [] \<Rightarrow> Inl JSONDecodeError
         | e # es \<Rightarrow>
             if e = ord CHR ''u'' then
               (case decode_uXXXX es of
                  None \<Rightarrow> Inl JSONDecodeError
                | Some (uni, rest) \<Rightarrow>
                    if 0xD800 \<le> uni \<and> uni \<le> 0xDBFF \<and> take 2 rest = [0x5C, ord CHR ''u''] then
                      (case decode_uXXXX (drop 2 rest) of
                         None \<Rightarrow> Inl JSONDecodeError
                       | Some (uni2, rest2) \<Rightarrow>
                           if 0xDC00 \<le> uni2 \<and> uni2 \<le> 0xDFFF then
                             cons_chr (0x10000 + ((uni - 0xD800) * 1024 + (uni2 - 0xDC00)))
                               (scanstring rest2)
                           else cons_chr uni (scanstring rest))
                    else cons_chr uni (scanstring rest))
             else
               (case unescape e of
                  None \<Rightarrow> Inl JSONDecodeError
                | Some ch \<Rightarrow> cons_chr ch (scanstring es)))
      else if c < 0x20 then Inl JSONDecodeError
      else cons_chr c (scanstring cs))"
  by pat_completeness auto
termination
  by (relation "measure length") (auto dest!: decode_uXXXX_length)


fun nat_of_digits :: "nat \<Rightarrow> str \<Rightarrow> nat" where
  "nat_of_digits acc [] = acc"
| "nat_of_digits acc (d # ds) = nat_of_digits (acc * 10 + (d - 48)) ds"

definition match_unsigned :: "str \<Rightarrow> (str \<times> str) option" where
  "match_unsigned s =
     (case s of
        [] \<Rightarrow> None
      | d # ds \<Rightarrow>
          if d = 48 then Some ([d], ds)
          else if is_digit d then Some (d # takeWhile is_digit ds, dropWhile is_digit ds)
          else None)"

definition match_integer :: "str \<Rightarrow> (str \<times> str) option" where
  "match_integer s =
     (if take 1 s = [ord CHR ''-''] then
        (case match_unsigned (drop 1 s) of
           None \<Rightarrow> None
         | Some (t, rest) \<Rightarrow> Some (ord CHR ''-'' # t, rest))
      else match_unsigned s)"

definition match_frac :: "str \<Rightarrow> str \<times> str" where
  "match_frac s =
     (case s of
        p # q # qs \<Rightarrow>
          if p = ord CHR ''.'' \<and> is_digit q then
            (p # takeWhile is_digit (q # qs), dropWhile is_digit (q # qs))
          else ([], s)
      | _ \<Rightarrow> ([], s))"

definition match_exp :: "str \<Rightarrow> str \<times> str" where
  "match_exp s =
     (case s of
        e # es \<Rightarrow>
          if e = ord CHR ''e'' \<or> e = ord CHR ''E'' then
            (let signed = (take 1 es = [ord CHR ''+''] \<or> take 1 es = [ord CHR ''-'']);
                 sg = (if signed then take 1 es else []);
                 ds = (if signed then drop 1 es else es)
             in if ds \<noteq> [] \<and> is_digit (hd ds) then
                  (e # sg @ takeWhile is_digit ds, dropWhile is_digit ds)
                else ([], s))
          else ([], s)
      | [] \<Rightarrow> ([], s))"

definition parse_int :: "str \<Rightarrow> int" where
  "parse_int t =
     (if take 1 t = [ord CHR ''-''] then - int (nat_of_digits 0 (drop 1 t))
      else int (nat_of_digits 0 t))"

definition match_number :: "(str \<Rightarrow> 'f) \<Rightarrow> str \<Rightarrow> ('f pyval \<times> str) option" where
  "match_number ff s =
     (case match_integer s of
        None \<Rightarrow> None
      | Some (integer, s1) \<Rightarrow>
          (case match_frac s1 of
             (frac, s2) \<Rightarrow>
               (case match_exp s2 of
                  (exp, s3) \<Rightarrow>
                    if frac \<noteq> [] \<or> exp \<noteq> [] then Some (PFloat (ff (integer @ frac @ exp)), s3)
                    else Some (PInt (parse_int integer), s3))))"


fun dict_set :: "(str \<times> 'v) list \<Rightarrow> str \<Rightarrow> 'v \<Rightarrow> (str \<times> 'v) list" where
  "dict_set [] k v = [(k, v)]"
| "dict_set ((k', v') # rest) k v =
     (if k' = k then (k, v) # rest else (k', v') # dict_set rest k v)"

definition dict_of_pairs :: "(str \<times> 'v) list \<Rightarrow> (str \<times> 'v) list" where
  "dict_of_pairs ps = foldl (\<lambda>d (k, v). dict_set d k v) [] ps"

fun scan_once :: "(str \<Rightarrow> 'f) \<Rightarrow> nat \<Rightarrow> str \<Rightarrow> error + ('f pyval \<times> str)"
  and parse_array :: "(str \<Rightarrow> 'f) \<Rightarrow> nat \<Rightarrow> str \<Rightarrow> error + ('f pyval list \<times> str)"
  and parse_object :: "(str \<Rightarrow> 'f) \<Rightarrow> nat \<Rightarrow> str \<Rightarrow> error + ((str \<times> 'f pyval) list \<times> str)"
where
  "scan_once ff 0 s = Inl RecursionError"
| "scan_once ff (Suc n) [] = Inl JSONDecodeError"
| "scan_once ff (Suc n) (c # cs) =
     (if c = 0x22 then
        (case scanstring cs of
           Inl e \<Rightarrow> Inl e
         | Inr (s, rest) \<Rightarrow> Inr (PStr s, rest))
      else if c = ord CHR ''{'' then
        (case skip_ws cs of
           [] \<Rightarrow> Inl JSONDecodeError
         | d # ds \<Rightarrow>
             if d = 0x22 then
               (case parse_object ff n (d # ds) of
                  Inl e \<Rightarrow> Inl e
                | Inr (pairs, rest) \<Rightarrow> Inr (PDict (dict_of_pairs pairs), rest))
             else if d = ord CHR ''}'' then Inr (PDict [], ds)
             else Inl JSONDecodeError)
      else if c = ord CHR ''['' then
        (case skip_ws cs of
           [] \<Rightarrow> Inl JSONDecodeError
         | d # ds \<Rightarrow>
             if d = ord CHR '']'' then Inr (PList [], ds)
             else
               (case parse_array ff n (d # ds) of
                  Inl e \<Rightarrow> Inl e
                | Inr (values, rest) \<Rightarrow> Inr (PList values, rest)))
      else if take 4 (c # cs) = S ''null'' then Inr (PNone, drop 4 (c # cs))
      else if take 4 (c # cs) = S ''true'' then Inr (PBool True, drop 4 (c # cs))
      else if take 5 (c # cs) = S ''false'' then Inr (PBool False, drop 5 (c # cs))
      else
        (case match_number ff (c # cs) of
           Some r \<Rightarrow> Inr r
         | None \<Rightarrow>
             if take 3 (c # cs) = S ''NaN'' then
               Inr (PFloat (ff (S ''NaN'')), drop 3 (c # cs))
             else if take 8 (c # cs) = S ''Infinity'' then
               Inr (PFloat (ff (S ''Infinity'')), drop 8 (c # cs))
             else if take 9 (c # cs) = S ''-Infinity'' then
               Inr (PFloat (ff (S ''-Infinity'')), drop 9 (c # cs))
             else Inl JSONDecodeError))"
| "parse_array ff 0 s = Inl RecursionError"
| "parse_array ff (Suc n) s =
     (case scan_once ff n s of
        Inl e \<Rightarrow> Inl e
      | Inr (v, s1) \<Rightarrow>
          (case skip_ws s1 of
             [] \<Rightarrow> Inl JSONDecodeError
           | d # ds \<Rightarrow>
               if d = ord CHR '']'' then Inr ([v], ds)
               else if d = ord CHR '','' then
                 (case parse_array ff n (skip_ws ds) of
                    Inl e \<Rightarrow> Inl e
                  | Inr (vs, rest) \<Rightarrow> Inr (v # vs, rest))
               else Inl JSONDecodeError))"
| "parse_object ff 0 s = Inl RecursionError"
| "parse_object ff (Suc n) s =
     (case s of
        [] \<Rightarrow> Inl JSONDecodeError
      | q # s0 \<Rightarrow>
          if q \<noteq> 0x22 then Inl JSONDecodeError
          else
            (case scanstring s0 of
               Inl e \<Rightarrow> Inl e
             | Inr (key, s1) \<Rightarrow>
                 (case skip_ws s1 of
                    [] \<Rightarrow> Inl JSONDecodeError
                  | col # s2 \<Rightarrow>
                      if col \<noteq> ord CHR '':'' then Inl JSONDecodeError
                      else
                        (case scan_once ff n (skip_ws s2) of
                           Inl e \<Rightarrow> Inl e
                         | Inr (v, s3) \<Rightarrow>
                             (case skip_ws s3 of
                                [] \<Rightarrow> Inl JSONDecodeError
                              | d # s4 \<Rightarrow>
                                  if d = ord CHR ''}'' then Inr ([(key, v)], s4)
                                  else if d = ord CHR '','' then
                                    (case parse_object ff n (skip_ws s4) of
                                       Inl e \<Rightarrow> Inl e
                                     | Inr (pairs, rest) \<Rightarrow> Inr ((key, v) # pairs, rest))
                                  else Inl JSONDecodeError)))))"

definition json_loads :: "(str \<Rightarrow> 'f) \<Rightarrow> str \<Rightarrow> error + 'f pyval" where
  "json_loads ff s =
     (case scan_once ff (2 * length s + 1) (skip_ws s) of
        Inl e \<Rightarrow> Inl e
      | Inr (v, rest) \<Rightarrow> if skip_ws rest = [] then Inr v else Inl JSONDecodeError)"


section \<open>UTF-8\<close>

definition byte :: "nat \<Rightarrow> 8 word" where
  "byte n = of_nat n"

definition encode_char :: "nat \<Rightarrow> bytes option" where
  "encode_char c =
     (if c < 0x80 then Some [byte c]
      else if c < 0x800 then Some [byte (0xC0 + c div 64), byte (0x80 + c mod 64)]
      else if 0xD800 \<le> c \<and> c \<le> 0xDFFF then None
      else if c < 0x10000 then
        Some [byte (0xE0 + c div 4096), byte (0x80 + c div 64 mod 64),
              byte (0x80 + c mod 64)]
      else if c < 0x110000 then
        Some [byte (0xF0 + c div 262144), byte (0x80 + c div 4096 mod 64),
              byte (0x80 + c div 64 mod 64), byte (0x80 + c mod 64)]
      else None)"

fun str_encode_utf8 :: "str \<Rightarrow> error + bytes" where
  "str_encode_utf8 [] = Inr []"
| "str_encode_utf8 (c # cs) =
     (case encode_char c of
        None \<Rightarrow> Inl UnicodeEncodeError
      | Some bs \<Rightarrow>
          (case str_encode_utf8 cs of
             Inl e \<Rightarrow> Inl e
           | Inr rest \<Rightarrow> Inr (bs @ rest)))"

definition is_continuation :: "8 word \<Rightarrow> bool" where
  "is_continuation b \<longleftrightarrow> 0x80 \<le> unat b \<and> unat b < 0xC0"

definition put :: "nat \<Rightarrow> str \<times> bytes \<Rightarrow> str \<times> bytes" where
  "put c r = (c # fst r, snd r)"

fun utf8_decode :: "bytes \<Rightarrow> str \<times> bytes" where
  "utf8_decode [] = ([], [])"
| "utf8_decode (b0 # bs) =
     (let ch = unat b0 in
      if ch < 0x80 then put ch (utf8_decode bs)
      else if ch < 0xC2 then put 0xFFFD (utf8_decode bs)
      else if ch < 0xE0 then
        (case bs of
           [] \<Rightarrow> ([], b0 # bs)
         | b1 # bs1 \<Rightarrow>
             if \<not> is_continuation b1 then put 0xFFFD (utf8_decode bs)
             else put (ch * 64 + unat b1 - 0x3080) (utf8_decode bs1))
      else if ch < 0xF0 then
        (case bs of
           [] \<Rightarrow> ([], b0 # bs)
         | b1 # bs1 \<Rightarrow>
             if \<not> is_continuation b1 \<or> (ch = 0xE0 \<and> unat b1 < 0xA0)
                \<or> (ch = 0xED \<and> 0xA0 \<le> unat b1) then
               (if ch = 0xED \<and> bs1 = [] \<and> 0xA0 \<le> unat b1 \<and> unat b1 \<le> 0xBF
                then ([], b0 # bs)
                else put 0xFFFD (utf8_decode bs))
             else
               (case bs1 of
                  [] \<Rightarrow> ([], b0 # bs)
                | b2 # bs2 \<Rightarrow>
                    if \<not> is_continuation b2 then put 0xFFFD (utf8_decode bs1)
                    else put (ch * 4096 + unat b1 * 64 + unat b2 - 0xE2080) (utf8_decode bs2)))
      else if ch < 0xF5 then
        (case bs of
           [] \<Rightarrow> ([], b0 # bs)
         | b1 # bs1 \<Rightarrow>
             if \<not> is_continuation b1 \<or> (ch = 0xF0 \<and> unat b1 < 0x90)
                \<or> (ch = 0xF4 \<and> 0x90 \<le> unat b1) then
               put 0xFFFD (utf8_decode bs)
             else
               (case bs1 of
                  [] \<Rightarrow> ([], b0 # bs)
                | b2 # bs2 \<Rightarrow>
                    if \<not> is_continuation b2 then put 0xFFFD (utf8_decode bs1)
                    else
                      (case bs2 of
                         [] \<Rightarrow> ([], b0 # bs)
                       | b3 # bs3 \<Rightarrow>
                           if \<not> is_continuation b3 then put 0xFFFD (utf8_decode bs2)
                           else
                             put (ch * 262144 + unat b1 * 4096 + unat b2 * 64 + unat b3
                                    - 0x3C82080)
                               (utf8_decode bs3))))
      else put 0xFFFD (utf8_decode bs))"

section \<open>Decoding a header, encoding and decoding an event, the dispatcher\<close>

definition dict_get :: "(str \<times> 'v) list \<Rightarrow> str \<Rightarrow> 'v option" where
  "dict_get d k = map_of d k"

definition theme_from_kwargs :: "'f pyval \<Rightarrow> error + 'f AsciiCastTheme" where
  "theme_from_kwargs v =
     (case v of
        PDict kwargs \<Rightarrow>
          (case (dict_get kwargs (S ''fg''), dict_get kwargs (S ''bg''),
                 dict_get kwargs (S ''palette'')) of
             (Some a, Some b, Some c) \<Rightarrow>
               if list_all (\<lambda>k. k = S ''fg'' \<or> k = S ''bg'' \<or> k = S ''palette'') (map fst kwargs)
               then Inr \<lparr>fg = a, bg = b, palette = c\<rparr>
               else Inl TypeError
           | _ \<Rightarrow> Inl TypeError)
      | _ \<Rightarrow> Inl TypeError)"

definition attr_or_None :: "(str \<times> 'f pyval) list \<Rightarrow> string \<Rightarrow> 'f pyval" where
  "attr_or_None attributes attr =
     (case dict_get attributes (S attr) of Some v \<Rightarrow> v | None \<Rightarrow> PNone)"

definition header_of_attributes :: "'f pyval \<Rightarrow> error + 'f AsciiCastHeader" where
  "header_of_attributes attributes =
     (case attributes of
        PDict kvs \<Rightarrow>
          (if attr_or_None kvs ''theme'' \<noteq> PNone then
             (case theme_from_kwargs (attr_or_None kvs ''theme'') of
                Inl e \<Rightarrow> Inl e
              | Inr t \<Rightarrow>
                  AsciiCastHeader_new (attr_or_None kvs ''version'') (attr_or_None kvs ''width'')
                    (attr_or_None kvs ''height'') (PTheme (fg t) (bg t) (palette t)))
           else
             AsciiCastHeader_new (attr_or_None kvs ''version'') (attr_or_None kvs ''width'')
               (attr_or_None kvs ''height'') PNone)
      | _ \<Rightarrow> Inl TypeError)"

definition header_from_json_line :: "(str \<Rightarrow> 'f) \<Rightarrow> str \<Rightarrow> error + 'f AsciiCastHeader" where
  "header_from_json_line ff line =
     (case json_loads ff line of
        Inl e \<Rightarrow> Inl e
      | Inr attributes \<Rightarrow> header_of_attributes attributes)"

definition utf8_decoder_decode :: "bytes \<Rightarrow> bytes \<Rightarrow> str \<times> bytes" where
  "utf8_decoder_decode buffer input = utf8_decode (buffer @ input)"

fun number_value :: "'f number \<Rightarrow> 'f pyval" where
  "number_value (IntNum i) = PInt i"
| "number_value (FloatNum f) = PFloat f"

definition event_to_json_line ::
  "('f \<Rightarrow> str) \<Rightarrow> bytes \<Rightarrow> 'f AsciiCastEvent \<Rightarrow> (error + str) \<times> bytes" where
  "event_to_json_line fs buffer e =
     (case utf8_decoder_decode buffer (event_data e) of
        (text, buffer') \<Rightarrow>
          (json_dumps fs (PList [number_value (time e), PStr (event_type e), PStr text]),
           buffer'))"

fun unpack3 :: "'f pyval \<Rightarrow> error + ('f pyval \<times> 'f pyval \<times> 'f pyval)" where
  "unpack3 (PList [a, b, c]) = Inr (a, b, c)"
| "unpack3 (PList _) = Inl ValueError"
| "unpack3 (PDict [(k1, _), (k2, _), (k3, _)]) = Inr (PStr k1, PStr k2, PStr k3)"
| "unpack3 (PDict _) = Inl ValueError"
| "unpack3 (PStr [a, b, c]) = Inr (PStr [a], PStr [b], PStr [c])"
| "unpack3 (PStr _) = Inl ValueError"
| "unpack3 (PBytes [a, b, c]) = Inr (PInt (uint a), PInt (uint b), PInt (uint c))"
| "unpack3 (PBytes _) = Inl ValueError"
| "unpack3 (PTheme a b c) = Inr (a, b, c)"
| "unpack3 _ = Inl TypeError"

definition event_of_attributes :: "'f pyval \<Rightarrow> error + 'f AsciiCastEvent" where
  "event_of_attributes attributes =
     (case unpack3 attributes of
        Inl e \<Rightarrow> Inl e
      | Inr (tm, ety, edata) \<Rightarrow>
          (case edata of
             PStr s \<Rightarrow>
               (case str_encode_utf8 s of
                  Inl e \<Rightarrow> Inl e
                | Inr b \<Rightarrow> AsciiCastEvent_new tm ety (PBytes b) PNone)
           | _ \<Rightarrow> Inl AttributeError))"

definition event_from_json_line :: "(str \<Rightarrow> 'f) \<Rightarrow> str \<Rightarrow> error + 'f AsciiCastEvent" where
  "event_from_json_line ff line =
     (case json_loads ff line of
        Inl e \<Rightarrow> Inl e
      | Inr attributes \<Rightarrow> event_of_attributes attributes)"

definition record_from_json_line :: "(str \<Rightarrow> 'f) \<Rightarrow> str \<Rightarrow> error + 'f AsciiCastRecord" where
  "record_from_json_line ff line =
     (case json_loads ff line of
        Inl e \<Rightarrow> Inl e
      | Inr v \<Rightarrow>
          if type_of v = T_dict then
            (case header_from_json_line ff line of Inl e \<Rightarrow> Inl e | Inr h \<Rightarrow> Inr (Header h))
          else if type_of v = T_list then
            (case event_from_json_line ff line of Inl e \<Rightarrow> Inl e | Inr ev \<Rightarrow> Inr (Event ev))
          else Inl NotImplementedError)"

section \<open>The UTF-8 decoder inverts the encoder\<close>

declare utf8_decode.simps(2) [simp del]

lemma unat_byte: "n < 256 \<Longrightarrow> unat (byte n) = n"
  by (simp add: byte_def unat_of_nat)

lemma dec1: "c < 0x80 \<Longrightarrow> utf8_decode (byte c # rest) = put c (utf8_decode rest)"
  by (simp add: utf8_decode.simps(2) Let_def unat_byte)

lemma dec2:
  assumes "2 \<le> q" "q < 32" "r < 64"
  shows "utf8_decode (byte (0xC0 + q) # byte (0x80 + r) # rest) = put (q * 64 + r) (utf8_decode rest)"
proof -
  have a: "unat (byte (0xC0 + q)) = 0xC0 + q" using assms by (intro unat_byte) simp
  have b: "unat (byte (0x80 + r)) = 0x80 + r" using assms by (intro unat_byte) simp
  have c: "(0xC0 + q) * 64 + (0x80 + r) - 0x3080 = q * 64 + r" by simp
  show ?thesis using assms
    by (simp add: utf8_decode.simps(2) Let_def is_continuation_def a b c del: add_mult_distrib add_mult_distrib2)
qed

lemma dec3:
  assumes "q < 16" "r1 < 64" "r0 < 64" "q = 0 \<longrightarrow> 32 \<le> r1" "q = 13 \<longrightarrow> r1 < 32"
  shows "utf8_decode (byte (0xE0 + q) # byte (0x80 + r1) # byte (0x80 + r0) # rest)
         = put (q * 4096 + (r1 * 64 + r0)) (utf8_decode rest)"
proof -
  have a: "unat (byte (0xE0 + q)) = 0xE0 + q" using assms by (intro unat_byte) simp
  have b: "unat (byte (0x80 + r1)) = 0x80 + r1" using assms by (intro unat_byte) simp
  have b2: "unat (byte (0x80 + r0)) = 0x80 + r0" using assms by (intro unat_byte) simp
  have c: "(0xE0 + q) * 4096 + (0x80 + r1) * 64 + (0x80 + r0) - 0xE2080 = q * 4096 + r1 * 64 + r0"
    by simp
  show ?thesis using assms
    by (auto simp add: utf8_decode.simps(2) Let_def is_continuation_def a b b2 c simp del: add_mult_distrib add_mult_distrib2)
qed

lemma dec4:
  assumes "q < 5" "r2 < 64" "r1 < 64" "r0 < 64" "q = 0 \<longrightarrow> 16 \<le> r2" "q = 4 \<longrightarrow> r2 < 16"
  shows "utf8_decode (byte (0xF0 + q) # byte (0x80 + r2) # byte (0x80 + r1) # byte (0x80 + r0) # rest)
         = put (q * 262144 + (r2 * 4096 + (r1 * 64 + r0))) (utf8_decode rest)"
proof -
  have a: "unat (byte (0xF0 + q)) = 0xF0 + q" using assms by (intro unat_byte) simp
  have b: "unat (byte (0x80 + r2)) = 0x80 + r2" using assms by (intro unat_byte) simp
  have b1: "unat (byte (0x80 + r1)) = 0x80 + r1" using assms by (intro unat_byte) simp
  have b2: "unat (byte (0x80 + r0)) = 0x80 + r0" using assms by (intro unat_byte) simp
  have c: "(0xF0 + q) * 262144 + (0x80 + r2) * 4096 + (0x80 + r1) * 64 + (0x80 + r0) - 0x3C82080
           = q * 262144 + r2 * 4096 + r1 * 64 + r0"
    by simp
  show ?thesis using assms
    by (auto simp add: utf8_decode.simps(2) Let_def is_continuation_def a b b1 b2 c simp del: add_mult_distrib add_mult_distrib2)
qed

lemma digits64_2:
  fixes c :: nat
  shows "c = c div 64 * 64 + c mod 64" and "c mod 64 < 64"
  by simp_all

lemma digits64_3:
  fixes c :: nat
  shows "c = c div 4096 * 4096 + (c div 64 mod 64 * 64 + c mod 64)"
proof -
  have "c div 4096 = c div 64 div 64" by (simp add: div_mult2_eq)
  moreover have "c div 64 = c div 64 div 64 * 64 + c div 64 mod 64" by simp
  moreover have "c = c div 64 * 64 + c mod 64" by simp
  ultimately show ?thesis by linarith
qed

lemma digits64_4:
  fixes c :: nat
  shows "c = c div 262144 * 262144 + (c div 4096 mod 64 * 4096 + (c div 64 mod 64 * 64 + c mod 64))"
proof -
  have "c div 262144 = c div 4096 div 64" by (simp add: div_mult2_eq)
  moreover have "c div 4096 = c div 4096 div 64 * 64 + c div 4096 mod 64" by simp
  ultimately have "c div 4096 * 4096 = c div 262144 * 262144 + c div 4096 mod 64 * 4096" by linarith
  then show ?thesis using digits64_3 [of c] by linarith
qed

lemma decode_encode_char:
  assumes "encode_char c = Some bs"
  shows "utf8_decode (bs @ rest) = put c (utf8_decode rest)"
proof -
  consider (one) "c < 0x80" | (two) "\<not> c < 0x80" "c < 0x800"
    | (three) "\<not> c < 0x800" "c < 0x10000" "\<not> (0xD800 \<le> c \<and> c \<le> 0xDFFF)"
    | (four) "\<not> c < 0x10000" "c < 0x110000"
    using assms by (auto simp: encode_char_def split: if_splits)
  then show ?thesis
  proof cases
    case one
    then show ?thesis using assms by (auto simp: encode_char_def dec1)
  next
    case two
    define q r where "q = c div 64" and "r = c mod 64"
    have e: "c = q * 64 + r" "r < 64" by (simp_all add: q_def r_def)
    have b: "2 \<le> q" "q < 32" using e two by arith+
    have "bs = [byte (0xC0 + q), byte (0x80 + r)]"
      using assms two by (simp add: encode_char_def q_def r_def)
    then show ?thesis using dec2 [OF b e(2), of rest] e(1) by simp
  next
    case three
    define q r1 r0 where "q = c div 4096" and "r1 = c div 64 mod 64" and "r0 = c mod 64"
    have e: "c = q * 4096 + (r1 * 64 + r0)" "r1 < 64" "r0 < 64"
      using digits64_3 [of c] by (simp_all add: q_def r1_def r0_def)
    have b: "q < 16" "q = 0 \<longrightarrow> 32 \<le> r1" "q = 13 \<longrightarrow> r1 < 32" using e three by arith+
    have "bs = [byte (0xE0 + q), byte (0x80 + r1), byte (0x80 + r0)]"
      using assms three by (simp add: encode_char_def q_def r1_def r0_def)
    then show ?thesis using dec3 [OF b(1) e(2) e(3) b(2) b(3), of rest] e(1) by simp
  next
    case four
    define q r2 r1 r0 where "q = c div 262144" and "r2 = c div 4096 mod 64"
      and "r1 = c div 64 mod 64" and "r0 = c mod 64"
    have e: "c = q * 262144 + (r2 * 4096 + (r1 * 64 + r0))" "r2 < 64" "r1 < 64" "r0 < 64"
      using digits64_4 [of c] by (simp_all add: q_def r2_def r1_def r0_def)
    have b: "q < 5" "q = 0 \<longrightarrow> 16 \<le> r2" "q = 4 \<longrightarrow> r2 < 16" using e four by arith+
    have "bs = [byte (0xF0 + q), byte (0x80 + r2), byte (0x80 + r1), byte (0x80 + r0)]"
      using assms four by (simp add: encode_char_def q_def r2_def r1_def r0_def)
    then show ?thesis using dec4 [OF b(1) e(2) e(3) e(4) b(2) b(3), of rest] e(1) by simp
  qed
qed

lemma decode_encode:
  "str_encode_utf8 cs = Inr bs \<Longrightarrow> utf8_decode bs = (cs, [])"
proof (induction cs arbitrary: bs)
  case Nil
  then show ?case by simp
next
  case (Cons c cs)
  then obtain b1 b2 where e: "encode_char c = Some b1" and r: "str_encode_utf8 cs = Inr b2"
    and bs: "bs = b1 @ b2"
    by (auto split: option.splits sum.splits)
  show ?case using Cons.IH [OF r] decode_encode_char [OF e, of b2] bs
    by (simp add: put_def)
qed

section \<open>The scanner reads back what the serialiser writes\<close>

subsection \<open>Strings\<close>

lemma hex_val_hex_digit: "d < 16 \<Longrightarrow> hex_val (hex_digit d) = Some d"
  by (auto simp: hex_val_def hex_digit_def)

lemma cons_chr_simps [simp]:
  "cons_chr c (Inl e) = Inl e"
  "cons_chr c (Inr (s, rest)) = Inr (c # s, rest)"
  by (simp_all add: cons_chr_def)

lemma scanstring_plain:
  "c \<noteq> 0x22 \<Longrightarrow> c \<noteq> 0x5C \<Longrightarrow> \<not> c < 0x20 \<Longrightarrow> scanstring (c # t) = cons_chr c (scanstring t)"
  by simp

lemma scanstring_control:
  assumes "c < 0x20"
  shows "scanstring (0x5C # ord CHR ''u'' # 48 # 48 # hex_digit (c div 16) # hex_digit (c mod 16) # t)
         = cons_chr c (scanstring t)"
proof -
  have h: "hex_val (hex_digit (c div 16)) = Some (c div 16)"
          "hex_val (hex_digit (c mod 16)) = Some (c mod 16)"
    using assms by (simp_all add: hex_val_hex_digit)
  have z: "hex_val 48 = Some 0" by (simp add: hex_val_def)
  have d: "decode_uXXXX (48 # 48 # hex_digit (c div 16) # hex_digit (c mod 16) # t) = Some (c, t)"
    by (simp add: h z)
  show ?thesis using assms by (simp add: d del: decode_uXXXX.simps)
qed

lemma scanstring_escape: "scanstring (escape_char c @ t) = cons_chr c (scanstring t)"
proof -
  consider "c = 0x22" | "c = 0x5C" | "c = 0x08" | "c = 0x0C" | "c = 0x0A" | "c = 0x0D" | "c = 0x09"
    | "c < 0x20" "c \<notin> {0x08, 0x0C, 0x0A, 0x0D, 0x09}"
    | "\<not> c < 0x20" "c \<noteq> 0x22" "c \<noteq> 0x5C"
    by auto
  then show ?thesis
  proof cases
    case 8
    then have "escape_char c = [0x5C, ord CHR ''u'', 48, 48, hex_digit (c div 16), hex_digit (c mod 16)]"
      by (auto simp: escape_char_def)
    then show ?thesis using scanstring_control [OF 8(1), of t] by simp
  next
    case 9
    then have "escape_char c = [c]" by (auto simp: escape_char_def)
    then show ?thesis using 9 by simp
  qed (simp_all add: escape_char_def unescape_def)
qed

lemma scanstring_escaped:
  "scanstring (concat (map escape_char s) @ 0x22 # rest) = Inr (s, rest)"
  by (induction s) (simp_all add: scanstring_escape)

lemma scanstring_basestring:
  "encode_basestring s @ rest = 0x22 # concat (map escape_char s) @ 0x22 # rest"
  by (simp add: encode_basestring_def)

subsection \<open>Integers\<close>

lemma digits_nonempty: "digits n \<noteq> []"
  by (subst digits.simps) simp

lemma digits_all: "\<forall>d \<in> set (digits n). is_digit d"
  by (induction n rule: digits.induct) (subst digits.simps, auto simp: is_digit_def)

lemma nat_of_digits_append:
  "nat_of_digits acc (xs @ ys) = nat_of_digits (nat_of_digits acc xs) ys"
  by (induction xs arbitrary: acc) simp_all

lemma nat_of_digits_digits: "nat_of_digits 0 (digits n) = n"
proof (induction n rule: digits.induct)
  case (1 n)
  show ?case
  proof (cases "n < 10")
    case True
    then show ?thesis by (subst digits.simps) simp
  next
    case False
    then show ?thesis using 1
      by (subst digits.simps) (simp add: nat_of_digits_append)
  qed
qed

lemma hd_digits: "hd (digits n) = 48 \<longleftrightarrow> n = 0"
proof (induction n rule: digits.induct)
  case (1 n)
  show ?case
  proof (cases "n < 10")
    case True
    then show ?thesis by (subst digits.simps) simp
  next
    case False
    then have "hd (digits n) = hd (digits (n div 10))"
      by (subst digits.simps) (simp add: digits_nonempty)
    then show ?thesis using 1 False by simp
  qed
qed

lemma digits_0: "digits 0 = [48]"
  by (subst digits.simps) simp

lemma takeWhile_digits:
  "\<forall>d \<in> set ds. is_digit d \<Longrightarrow> \<not> is_digit c \<Longrightarrow>
   takeWhile is_digit (ds @ c # rest) = ds \<and> dropWhile is_digit (ds @ c # rest) = c # rest"
  by (induction ds) simp_all

lemma unsigned_digits:
  assumes "\<not> is_digit c"
  shows "match_unsigned (digits n @ c # rest) = Some (digits n, c # rest)"
proof (cases "n = 0")
  case True
  then show ?thesis by (simp add: digits_0 match_unsigned_def)
next
  case False
  obtain d ds where dd: "digits n = d # ds" using digits_nonempty [of n] by (cases "digits n") auto
  have d: "is_digit d" "d \<noteq> 48" "\<forall>x \<in> set ds. is_digit x"
    using digits_all [of n] hd_digits [of n] False dd by auto
  show ?thesis using d takeWhile_digits [OF d(3) assms, of rest]
    by (simp add: dd match_unsigned_def)
qed

lemma digits_not_minus: "take 1 (digits n @ rest) \<noteq> [45]"
proof -
  obtain d ds where dd: "digits n = d # ds" using digits_nonempty [of n] by (cases "digits n") auto
  have "is_digit d" using digits_all [of n] dd by auto
  then show ?thesis by (simp add: dd is_digit_def)
qed

lemma match_integer_digits:
  assumes "\<not> is_digit c"
  shows "match_integer (digits n @ c # rest) = Some (digits n, c # rest)"
  using unsigned_digits [OF assms, of n rest] digits_not_minus [of n "c # rest"]
  by (simp add: match_integer_def)

lemma match_integer_neg:
  assumes "\<not> is_digit c"
  shows "match_integer (45 # digits n @ c # rest) = Some (45 # digits n, c # rest)"
  using unsigned_digits [OF assms, of n rest]
  by (simp add: match_integer_def)

lemma match_integer_int_repr:
  assumes "\<not> is_digit c"
  shows "match_integer (int_repr i @ c # rest) = Some (int_repr i, c # rest)"
  using match_integer_digits [OF assms] match_integer_neg [OF assms]
  by (simp add: int_repr_def)

lemma parse_int_int_repr: "parse_int (int_repr i) = i"
proof (cases "i < 0")
  case True
  then show ?thesis by (simp add: parse_int_def int_repr_def nat_of_digits_digits)
next
  case False
  have "hd (digits (nat i)) \<noteq> 45" using digits_all [of "nat i"] digits_nonempty [of "nat i"]
    by (cases "digits (nat i)") (auto simp: is_digit_def)
  then have "take 1 (digits (nat i)) \<noteq> [45]"
    using digits_nonempty [of "nat i"] by (cases "digits (nat i)") auto
  then show ?thesis using False by (simp add: parse_int_def int_repr_def nat_of_digits_digits)
qed

definition number_end :: "nat \<Rightarrow> bool" where
  "number_end c \<longleftrightarrow> \<not> is_digit c \<and> c \<noteq> ord CHR ''.'' \<and> c \<noteq> ord CHR ''e'' \<and> c \<noteq> ord CHR ''E''"

lemma match_number_int_repr:
  assumes "number_end c"
  shows "match_number ff (int_repr i @ c # rest) = Some (PInt i, c # rest)"
proof -
  have "\<not> is_digit c" using assms by (simp add: number_end_def)
  from match_integer_int_repr [OF this, of i rest] show ?thesis
    using assms
    by (simp add: match_number_def match_frac_def match_exp_def number_end_def
        parse_int_int_repr split: list.splits)
qed

lemma int_repr_first:
  obtains d ds where "int_repr i = d # ds" "d = 45 \<or> is_digit d"
proof (cases "i < 0")
  case True
  then show ?thesis using that by (simp add: int_repr_def)
next
  case False
  then show ?thesis using that digits_all [of "nat i"] digits_nonempty [of "nat i"]
    by (cases "digits (nat i)") (auto simp: int_repr_def)
qed

lemma scan_once_int:
  assumes "number_end c"
  shows "scan_once ff (Suc n) (int_repr i @ c # rest) = Inr (PInt i, c # rest)"
proof -
  obtain d ds where dd: "int_repr i = d # ds" and d: "d = 45 \<or> is_digit d"
    by (rule int_repr_first)
  have m: "match_number ff (d # ds @ c # rest) = Some (PInt i, c # rest)"
    using match_number_int_repr [OF assms, of ff i rest] by (simp add: dd)
  show ?thesis using d
    by (auto simp: dd m S_def is_digit_def)
qed

lemma skip_ws_int: "skip_ws (int_repr i @ rest) = int_repr i @ rest"
proof -
  obtain d ds where dd: "int_repr i = d # ds" and d: "d = 45 \<or> is_digit d"
    by (rule int_repr_first)
  then show ?thesis by (auto simp: skip_ws_def is_ws_def is_digit_def)
qed

lemma scan_once_str:
  "scan_once ff (Suc n) (encode_basestring s @ rest) = Inr (PStr s, rest)"
  by (simp add: scanstring_basestring scanstring_escaped)

lemma skip_ws_str: "skip_ws (encode_basestring s @ rest) = encode_basestring s @ rest"
  by (simp add: skip_ws_def is_ws_def encode_basestring_def)

section \<open>Construction\<close>

lemma check_types_error: "check_types types kvs = Some e \<Longrightarrow> e = TypeError"
  by (induction kvs) (auto split: if_splits)

text \<open>
  C4. A header is constructed for version 2 only. When the four attributes have their
  declared types, an integer version other than 2 raises \<open>ValueError\<close> and version 2
  gives the header; when the version is not an integer the error is \<open>TypeError\<close>,
  whatever the other attributes are, and so it is when any other attribute has a wrong
  type, whatever the version is: the value is compared only after the type checks.
\<close>

theorem header_new_version:
  "(type_of thme \<in> {T_NoneType, T_AsciiCastTheme} \<longrightarrow>
      (v \<noteq> 2 \<longrightarrow> AsciiCastHeader_new (PInt v) (PInt w) (PInt h) thme = Inl ValueError) \<and>
      (\<exists>hd. AsciiCastHeader_new (PInt 2) (PInt w) (PInt h) thme = Inr hd \<and> version hd = 2))
   \<and> (type_of ver \<noteq> T_int \<longrightarrow> AsciiCastHeader_new ver wid hgt thme = Inl TypeError)
   \<and> (type_of wid \<noteq> T_int \<or> type_of hgt \<noteq> T_int \<or>
        type_of thme \<notin> {T_NoneType, T_AsciiCastTheme} \<longrightarrow>
        AsciiCastHeader_new ver wid hgt thme = Inl TypeError)"
  by (cases thme; cases ver) (auto simp: AsciiCastHeader_new_def header_types_def)

theorem header_new_version_witness:
  "AsciiCastHeader_new (PInt 1) (PInt 80) (PInt 24) (PNone :: unit pyval) = Inl ValueError
   \<and> AsciiCastHeader_new (PInt 3) (PInt 80) (PInt 24) (PNone :: unit pyval) = Inl ValueError
   \<and> AsciiCastHeader_new (PStr (S ''2'')) (PInt 80) (PInt 24) (PNone :: unit pyval) = Inl TypeError
   \<and> AsciiCastHeader_new (PInt 1) (PStr (S ''80'')) (PInt 24) (PNone :: unit pyval) = Inl TypeError
   \<and> (\<exists>hd. AsciiCastHeader_new (PInt 2) (PInt 80) (PInt 24) (PNone :: unit pyval) = Inr hd)"
  using header_new_version [of "PNone :: unit pyval" 1 80 24 "PStr (S ''2'')" "PInt 80" "PInt 24"]
        header_new_version [of "PNone :: unit pyval" 3 80 24 "PInt 1" "PStr (S ''80'')" "PInt 24"]
  by auto

text \<open>
  C6. A header whose width is a float is rejected with \<open>TypeError\<close>, whatever the float
  is (so also for 80.0) and whatever the other attributes are: the set of types of an
  integer field holds \<open>int\<close> alone and nothing is coerced.
\<close>

theorem header_new_float_width:
  "AsciiCastHeader_new ver (PFloat x) hgt thme = Inl TypeError"
  by (cases "type_of ver = T_int")
     (auto simp: AsciiCastHeader_new_def header_types_def)

text \<open>
  C10. A boolean is rejected with \<open>TypeError\<close> as the version, the width or the height
  of a header, and as the time or the duration of an event: the type sets are tested on
  the exact type, and \<open>bool\<close> is in none of them.
\<close>

theorem new_rejects_bool:
  "AsciiCastHeader_new (PBool b) wid hgt thme = Inl TypeError
   \<and> AsciiCastHeader_new ver (PBool b) hgt thme = Inl TypeError
   \<and> AsciiCastHeader_new ver wid (PBool b) thme = Inl TypeError
   \<and> AsciiCastEvent_new (PBool b) ety edata dur = Inl TypeError
   \<and> AsciiCastEvent_new tm ety edata (PBool b) = Inl TypeError"
  by (auto simp: AsciiCastHeader_new_def AsciiCastEvent_new_def header_types_def
        event_types_def)

section \<open>Headers on the wire\<close>

lemma skip_ws_Cons: "skip_ws (c # cs) = (if is_ws c then skip_ws cs else c # cs)"
  by (simp add: skip_ws_def)

lemma skip_ws_Nil: "skip_ws [] = []"
  by (simp add: skip_ws_def)

lemma fuel_ge:
  assumes "k \<le> 2 * length (line :: str) + 1"
  obtains n where "2 * length line + 1 = k + n"
  using assms le_Suc_ex by blast

lemma scan_header_plain:
  "scan_once ff (Suc (Suc (Suc (Suc (Suc (Suc n))))))
     (S ''{\"version\": '' @ int_repr v @ S '', \"width\": '' @ int_repr w
        @ S '', \"height\": '' @ int_repr h @ S ''}'' @ rest)
   = Inr (PDict [(S ''version'', PInt v), (S ''width'', PInt w), (S ''height'', PInt h)], rest)"
  by (simp add: S_def scan_once_int skip_ws_int skip_ws_Cons skip_ws_Nil number_end_def
        is_digit_def is_ws_def dict_of_pairs_def)

lemma loads_header_plain:
  "json_loads ff (S ''{\"version\": '' @ int_repr v @ S '', \"width\": '' @ int_repr w
        @ S '', \"height\": '' @ int_repr h @ S ''}'')
   = Inr (PDict [(S ''version'', PInt v), (S ''width'', PInt w), (S ''height'', PInt h)])"
proof -
  let ?line = "S ''{\"version\": '' @ int_repr v @ S '', \"width\": '' @ int_repr w
        @ S '', \"height\": '' @ int_repr h @ S ''}''"
  have "6 \<le> 2 * length ?line + 1" by (simp add: S_def)
  then obtain n where n: "2 * length ?line + 1 = 6 + n" by (rule fuel_ge)
  have f: "2 * length ?line + 1 = Suc (Suc (Suc (Suc (Suc (Suc n)))))" using n by simp
  have s: "skip_ws ?line = ?line" by (simp add: S_def skip_ws_Cons is_ws_def)
  show ?thesis
    unfolding json_loads_def f s
    using scan_header_plain [of ff n v w h "[]"]
    by (simp add: skip_ws_Nil)
qed

lemma scan_header_theme:
  "scan_once ff (Suc (Suc (Suc (Suc (Suc (Suc (Suc (Suc (Suc (Suc (Suc n)))))))))))
     (S ''{\"version\": '' @ int_repr v @ S '', \"width\": '' @ int_repr w
        @ S '', \"height\": '' @ int_repr h
        @ S '', \"theme\": {\"fg\": '' @ encode_basestring a @ S '', \"bg\": ''
        @ encode_basestring b @ S '', \"palette\": '' @ encode_basestring c @ S ''}}'' @ rest)
   = Inr (PDict [(S ''version'', PInt v), (S ''width'', PInt w), (S ''height'', PInt h),
                 (S ''theme'', PDict [(S ''fg'', PStr a), (S ''bg'', PStr b),
                                      (S ''palette'', PStr c)])], rest)"
  by (simp add: S_def scan_once_int skip_ws_int scan_once_str skip_ws_str skip_ws_Cons
        skip_ws_Nil number_end_def is_digit_def is_ws_def dict_of_pairs_def)

lemma loads_header_theme:
  "json_loads ff (S ''{\"version\": '' @ int_repr v @ S '', \"width\": '' @ int_repr w
        @ S '', \"height\": '' @ int_repr h
        @ S '', \"theme\": {\"fg\": '' @ encode_basestring a @ S '', \"bg\": ''
        @ encode_basestring b @ S '', \"palette\": '' @ encode_basestring c @ S ''}}'')
   = Inr (PDict [(S ''version'', PInt v), (S ''width'', PInt w), (S ''height'', PInt h),
                 (S ''theme'', PDict [(S ''fg'', PStr a), (S ''bg'', PStr b),
                                      (S ''palette'', PStr c)])])"
proof -
  let ?line = "S ''{\"version\": '' @ int_repr v @ S '', \"width\": '' @ int_repr w
        @ S '', \"height\": '' @ int_repr h
        @ S '', \"theme\": {\"fg\": '' @ encode_basestring a @ S '', \"bg\": ''
        @ encode_basestring b @ S '', \"palette\": '' @ encode_basestring c @ S ''}}''"
  have "11 \<le> 2 * length ?line + 1" by (simp add: S_def)
  then obtain n where n: "2 * length ?line + 1 = 11 + n" by (rule fuel_ge)
  have f: "2 * length ?line + 1
           = Suc (Suc (Suc (Suc (Suc (Suc (Suc (Suc (Suc (Suc (Suc n))))))))))"
    using n by simp
  have s: "skip_ws ?line = ?line" by (simp add: S_def skip_ws_Cons is_ws_def)
  show ?thesis
    unfolding json_loads_def f s
    using scan_header_theme [of ff n v w h a b c "[]"]
    by (simp add: skip_ws_Nil)
qed

lemma header_new_Inr:
  assumes "AsciiCastHeader_new ver wid hgt thme = Inr h"
  shows "ver = PInt 2 \<and> wid = PInt (width h) \<and> hgt = PInt (height h) \<and> version h = 2
         \<and> as_theme thme = Some (theme h)"
  using assms
  by (auto simp: AsciiCastHeader_new_def split: option.splits if_splits pyval.splits)

lemma header_new_ok:
  "version h = 2 \<Longrightarrow> theme h = None \<Longrightarrow>
   AsciiCastHeader_new (PInt 2) (PInt (width h)) (PInt (height h)) PNone = Inr h"
  "version h = 2 \<Longrightarrow> theme h = Some t \<Longrightarrow>
   AsciiCastHeader_new (PInt 2) (PInt (width h)) (PInt (height h))
     (PTheme (fg t) (bg t) (palette t)) = Inr h"
  by (cases h; simp add: AsciiCastHeader_new_def header_types_def)+

lemma header_line_plain:
  "theme h = None \<Longrightarrow>
   header_to_json_line fs h
     = Inr (S ''{\"version\": '' @ int_repr (version h) @ S '', \"width\": ''
            @ int_repr (width h) @ S '', \"height\": '' @ int_repr (height h) @ S ''}'')"
  by (simp add: header_to_json_line_def encode_basestring_def escape_char_def S_def)

lemma header_line_theme:
  "theme h = Some t \<Longrightarrow> fg t = PStr a \<Longrightarrow> bg t = PStr b \<Longrightarrow> palette t = PStr c \<Longrightarrow>
   header_to_json_line fs h
     = Inr (S ''{\"version\": '' @ int_repr (version h) @ S '', \"width\": ''
            @ int_repr (width h) @ S '', \"height\": '' @ int_repr (height h)
            @ S '', \"theme\": {\"fg\": '' @ encode_basestring a @ S '', \"bg\": ''
            @ encode_basestring b @ S '', \"palette\": '' @ encode_basestring c
            @ S ''}}'')"
  by (simp add: header_to_json_line_def theme_asdict_def encode_basestring_def
        escape_char_def S_def)


text \<open>
  C7. The header \<open>Header(2, 80, 24, None)\<close> is written as the line
  \<open>{"version": 2, "width": 80, "height": 24}\<close>, which ends with the closing brace. For
  every header without a theme the object has the three keys \<open>version\<close>, \<open>width\<close>,
  \<open>height\<close> and no key \<open>theme\<close>; for a header with a theme a fourth key \<open>theme\<close>
  holds an object with the keys \<open>fg\<close>, \<open>bg\<close>, \<open>palette\<close> and the serialised
  fields of the theme.
\<close>

theorem header_to_json_line_format:
  "header_to_json_line fs \<lparr>version = 2, width = 80, height = 24, theme = None\<rparr>
     = Inr (S ''{\"version\": 2, \"width\": 80, \"height\": 24}'')
   \<and> (theme h = None \<longrightarrow>
        header_to_json_line fs h
          = Inr (S ''{\"version\": '' @ int_repr (version h) @ S '', \"width\": ''
                 @ int_repr (width h) @ S '', \"height\": '' @ int_repr (height h) @ S ''}''))
   \<and> (theme h = Some t \<and> json_dumps fs (fg t) = Inr jf \<and> json_dumps fs (bg t) = Inr jb
        \<and> json_dumps fs (palette t) = Inr jp \<longrightarrow>
        header_to_json_line fs h
          = Inr (S ''{\"version\": '' @ int_repr (version h) @ S '', \"width\": ''
                 @ int_repr (width h) @ S '', \"height\": '' @ int_repr (height h)
                 @ S '', \"theme\": {\"fg\": '' @ jf @ S '', \"bg\": '' @ jb
                 @ S '', \"palette\": '' @ jp @ S ''}}''))"
  by (simp add: header_to_json_line_def theme_asdict_def encode_basestring_def escape_char_def
        S_def int_repr_def digits.simps)

theorem header_to_json_line_format_witness:
  "header_to_json_line (\<lambda>u :: unit. [])
     \<lparr>version = 2, width = 132, height = 43,
      theme = Some \<lparr>fg = PStr (S ''#d0d0d0''), bg = PNone, palette = PInt 7\<rparr>\<rparr>
   = Inr (S ''{\"version\": 2, \"width\": 132, \"height\": 43, \"theme\": {\"fg\": \"#d0d0d0\", \"bg\": null, \"palette\": 7}}'')
   \<and> header_to_json_line (\<lambda>u :: unit. [])
     \<lparr>version = 2, width = 1, height = -5, theme = None\<rparr>
   = Inr (S ''{\"version\": 2, \"width\": 1, \"height\": -5}'')"
  using header_to_json_line_format [of "\<lambda>u :: unit. []"
      "\<lparr>version = 2, width = 132, height = 43,
        theme = Some \<lparr>fg = PStr (S ''#d0d0d0''), bg = PNone, palette = PInt 7\<rparr>\<rparr>"
      "\<lparr>fg = PStr (S ''#d0d0d0''), bg = PNone, palette = PInt 7\<rparr>"
      "S ''\"#d0d0d0\"''" "S ''null''" "S ''7''"]
    header_to_json_line_format [of "\<lambda>u :: unit. []"
      "\<lparr>version = 2, width = 1, height = -5, theme = None\<rparr>"]
  by (simp add: encode_basestring_def escape_char_def S_def int_repr_def digits.simps)

text \<open>
  C1. A valid header (one that \<open>AsciiCastHeader.__new__\<close> has built, whose theme, when
  there is one, has strings for its three fields) is encoded without error, and decoding
  the line gives the header back: with the same theme when it has one, with the theme
  \<open>None\<close> when it has none.
\<close>

theorem header_round_trip:
  assumes "AsciiCastHeader_new ver wid hgt thme = Inr h"
    and "\<forall>t. theme h = Some t \<longrightarrow>
           type_of (fg t) = T_str \<and> type_of (bg t) = T_str \<and> type_of (palette t) = T_str"
  shows "\<exists>line. header_to_json_line fs h = Inr line \<and> header_from_json_line ff line = Inr h"
proof (cases "theme h")
  case None
  have v: "version h = 2" using header_new_Inr [OF assms(1)] by simp
  have "header_of_attributes
      (PDict [(S ''version'', PInt (version h)), (S ''width'', PInt (width h)),
              (S ''height'', PInt (height h))]) = Inr h"
    using header_new_ok(1) [OF v None] v
    by (simp add: header_of_attributes_def attr_or_None_def dict_get_def S_def)
  then show ?thesis
    by (simp add: header_line_plain [OF None] header_from_json_line_def loads_header_plain)
next
  case (Some t)
  have v: "version h = 2" using header_new_Inr [OF assms(1)] by simp
  obtain a b c where t: "fg t = PStr a" "bg t = PStr b" "palette t = PStr c"
    using assms(2) Some by (cases "fg t"; cases "bg t"; cases "palette t") auto
  have "header_of_attributes
      (PDict [(S ''version'', PInt (version h)), (S ''width'', PInt (width h)),
              (S ''height'', PInt (height h)),
              (S ''theme'', PDict [(S ''fg'', PStr a), (S ''bg'', PStr b),
                                   (S ''palette'', PStr c)])]) = Inr h"
    using header_new_ok(2) [OF v Some] t v
    by (simp add: header_of_attributes_def attr_or_None_def dict_get_def S_def
        theme_from_kwargs_def)
  then show ?thesis
    by (simp add: header_line_theme [OF Some t] header_from_json_line_def loads_header_theme)
qed

theorem header_round_trip_witness:
  "AsciiCastHeader_new (PInt 2) (PInt 80) (PInt 24)
      (PTheme (PStr (S ''#000000'') :: unit pyval) (PStr (S ''#ffffff''))
         (PStr (S ''#000000:#ff0000'')))
     = Inr \<lparr>version = 2, width = 80, height = 24,
            theme = Some \<lparr>fg = PStr (S ''#000000''), bg = PStr (S ''#ffffff''),
                          palette = PStr (S ''#000000:#ff0000'')\<rparr>\<rparr>
   \<and> (\<exists>line.
         header_to_json_line (\<lambda>u :: unit. [])
           \<lparr>version = 2, width = 80, height = 24,
            theme = Some \<lparr>fg = PStr (S ''#000000''), bg = PStr (S ''#ffffff''),
                          palette = PStr (S ''#000000:#ff0000'')\<rparr>\<rparr> = Inr line
         \<and> header_from_json_line (\<lambda>t. ()) line
           = Inr \<lparr>version = 2, width = 80, height = 24,
                  theme = Some \<lparr>fg = PStr (S ''#000000''), bg = PStr (S ''#ffffff''),
                                palette = PStr (S ''#000000:#ff0000'')\<rparr>\<rparr>)"
proof -
  have n: "AsciiCastHeader_new (PInt 2) (PInt 80) (PInt 24)
      (PTheme (PStr (S ''#000000'')) (PStr (S ''#ffffff'')) (PStr (S ''#000000:#ff0000'')))
     = Inr \<lparr>version = 2, width = 80, height = 24,
            theme = Some \<lparr>fg = PStr (S ''#000000'') :: unit pyval, bg = PStr (S ''#ffffff''),
                          palette = PStr (S ''#000000:#ff0000'')\<rparr>\<rparr>"
    by (simp add: AsciiCastHeader_new_def header_types_def)
  show ?thesis
    using n header_round_trip [OF n, of "\<lambda>u :: unit. []" "\<lambda>t. ()"]
    by simp
qed

section \<open>Decoding: the dispatcher, missing fields, the theme\<close>

lemma theme_from_kwargs_error: "theme_from_kwargs v = Inl e \<Longrightarrow> e = TypeError"
  by (auto simp: theme_from_kwargs_def split: pyval.splits option.splits if_splits)

lemma header_new_None:
  "ver = PNone \<or> wid = PNone \<or> hgt = PNone \<Longrightarrow>
   AsciiCastHeader_new ver wid hgt thme = Inl TypeError"
  by (auto simp: AsciiCastHeader_new_def header_types_def)


text \<open>
  The positional reading of the theme object: the values of its first, second and third
  items, whatever their keys are.
\<close>

fun theme_positional :: "'f pyval \<Rightarrow> error + 'f AsciiCastTheme" where
  "theme_positional (PDict [(k1, a), (k2, b), (k3, c)]) = Inr \<lparr>fg = a, bg = b, palette = c\<rparr>"
| "theme_positional _ = Inl TypeError"

text \<open>
  C5. The dispatcher parses the line. A line that is not JSON raises the error of the
  parser; an object is given to the header decoder and an array to the event decoder,
  whose result or error is the dispatcher's; a string, a number, a boolean or \<open>null\<close>
  raises \<open>NotImplementedError\<close>.
\<close>

theorem dispatch_by_shape:
  "(json_loads ff line = Inl e \<longrightarrow> record_from_json_line ff line = Inl e)
   \<and> (json_loads ff line = Inr (PDict kvs) \<longrightarrow>
        record_from_json_line ff line
          = (case header_from_json_line ff line of Inl e \<Rightarrow> Inl e | Inr h \<Rightarrow> Inr (Header h))
        \<and> header_from_json_line ff line = header_of_attributes (PDict kvs))
   \<and> (json_loads ff line = Inr (PList xs) \<longrightarrow>
        record_from_json_line ff line
          = (case event_from_json_line ff line of Inl e \<Rightarrow> Inl e | Inr ev \<Rightarrow> Inr (Event ev))
        \<and> event_from_json_line ff line = event_of_attributes (PList xs))
   \<and> (json_loads ff line = Inr v \<and> type_of v \<in> {T_str, T_int, T_float, T_bool, T_NoneType} \<longrightarrow>
        record_from_json_line ff line = Inl NotImplementedError)"
  by (auto simp: record_from_json_line_def header_from_json_line_def event_from_json_line_def)

theorem dispatch_by_shape_witness:
  "record_from_json_line (\<lambda>t. t) (S ''{\"version\":2,\"width\":80,\"height\":24}'')
     = Inr (Header \<lparr>version = 2, width = 80, height = 24, theme = None\<rparr>)
   \<and> record_from_json_line (\<lambda>t. t) (S ''[1.5,\"o\",\"hi\"]'')
     = Inr (Event \<lparr>time = FloatNum (S ''1.5''), event_type = S ''o'',
                    event_data = [0x68, 0x69], duration = None\<rparr>)
   \<and> record_from_json_line (\<lambda>t. t) (S ''\"oops\"'') = Inl NotImplementedError
   \<and> record_from_json_line (\<lambda>t. t) (S ''null'') = Inl NotImplementedError
   \<and> record_from_json_line (\<lambda>t. t) (S ''[1.5,\"o\"'') = Inl JSONDecodeError"
proof -
  have l1: "json_loads (\<lambda>t. t) (S ''{\"version\":2,\"width\":80,\"height\":24}'')
     = Inr (PDict [(S ''version'', PInt 2), (S ''width'', PInt 80), (S ''height'', PInt 24)])"
    by code_simp
  have h1: "header_of_attributes
      (PDict [(S ''version'', PInt 2 :: str pyval), (S ''width'', PInt 80), (S ''height'', PInt 24)])
     = Inr \<lparr>version = 2, width = 80, height = 24, theme = None\<rparr>"
    by code_simp
  have l2: "json_loads (\<lambda>t. t) (S ''[1.5,\"o\",\"hi\"]'')
     = Inr (PList [PFloat (S ''1.5''), PStr (S ''o''), PStr (S ''hi'')])"
    by code_simp
  have h2: "event_of_attributes (PList [PFloat (S ''1.5''), PStr (S ''o''), PStr (S ''hi'')])
     = Inr \<lparr>time = FloatNum (S ''1.5''), event_type = S ''o'',
            event_data = [0x68, 0x69], duration = None\<rparr>"
    by code_simp
  have l3: "json_loads (\<lambda>t. t) (S ''\"oops\"'') = Inr (PStr (S ''oops''))" by code_simp
  have l4: "json_loads (\<lambda>t. t :: str) (S ''null'') = Inr PNone" by code_simp
  have l5: "json_loads (\<lambda>t. t :: str) (S ''[1.5,\"o\"'') = Inl JSONDecodeError" by code_simp
  show ?thesis
    using dispatch_by_shape [of "\<lambda>t. t" "S ''{\"version\":2,\"width\":80,\"height\":24}''"
        undefined "[(S ''version'', PInt 2), (S ''width'', PInt 80), (S ''height'', PInt 24)]"
        undefined undefined]
      dispatch_by_shape [of "\<lambda>t. t" "S ''[1.5,\"o\",\"hi\"]''" undefined undefined
        "[PFloat (S ''1.5''), PStr (S ''o''), PStr (S ''hi'')]" undefined]
      dispatch_by_shape [of "\<lambda>t. t" "S ''\"oops\"''" undefined undefined undefined
        "PStr (S ''oops'')"]
      dispatch_by_shape [of "\<lambda>t. t :: str" "S ''null''" undefined undefined undefined PNone]
      dispatch_by_shape [of "\<lambda>t. t :: str" "S ''[1.5,\"o\"''" JSONDecodeError undefined
        undefined undefined]
    by (simp add: l1 h1 l2 h2 l3 l4 l5)
qed

text \<open>
  C9. When the object of a header line lacks \<open>version\<close>, \<open>width\<close> or \<open>height\<close>,
  \<open>None\<close> stands for the missing field, and decoding fails with \<open>TypeError\<close>; when
  the object has no theme either, that error is the one of \<open>AsciiCastHeader.__new__\<close>
  applied to the fields with \<open>None\<close> substituted.
\<close>

theorem header_missing_field:
  assumes "json_loads ff line = Inr (PDict attrs)"
    and "dict_get attrs (S ''version'') = None \<or> dict_get attrs (S ''width'') = None
         \<or> dict_get attrs (S ''height'') = None"
  shows "(attr_or_None attrs ''version'' = PNone \<or> attr_or_None attrs ''width'' = PNone
          \<or> attr_or_None attrs ''height'' = PNone)
         \<and> header_from_json_line ff line = Inl TypeError
         \<and> (dict_get attrs (S ''theme'') = None \<longrightarrow>
              header_from_json_line ff line
                = AsciiCastHeader_new (attr_or_None attrs ''version'')
                    (attr_or_None attrs ''width'') (attr_or_None attrs ''height'') PNone)"
proof -
  have n: "attr_or_None attrs ''version'' = PNone \<or> attr_or_None attrs ''width'' = PNone
          \<or> attr_or_None attrs ''height'' = PNone"
    using assms(2) by (auto simp: attr_or_None_def)
  have e: "header_from_json_line ff line = Inl TypeError"
    using assms(1) header_new_None [OF n]
    by (auto simp: header_from_json_line_def header_of_attributes_def
        dest: theme_from_kwargs_error split: sum.splits)
  show ?thesis using n e assms(1) header_new_None [OF n]
    by (simp add: header_from_json_line_def header_of_attributes_def attr_or_None_def)
qed

theorem header_missing_field_witness:
  "json_loads (\<lambda>t. t) (S ''{\"version\": 2, \"height\": 24}'')
     = Inr (PDict [(S ''version'', PInt 2), (S ''height'', PInt 24)])
   \<and> dict_get [(S ''version'', PInt 2 :: str pyval), (S ''height'', PInt 24)] (S ''width'') = None
   \<and> attr_or_None [(S ''version'', PInt 2 :: str pyval), (S ''height'', PInt 24)] ''width'' = PNone
   \<and> header_from_json_line (\<lambda>t. t) (S ''{\"version\": 2, \"height\": 24}'') = Inl TypeError"
proof -
  have l: "json_loads (\<lambda>t. t) (S ''{\"version\": 2, \"height\": 24}'')
     = Inr (PDict [(S ''version'', PInt 2), (S ''height'', PInt 24)])"
    by code_simp
  have d: "dict_get [(S ''version'', PInt 2 :: str pyval), (S ''height'', PInt 24)] (S ''width'') = None"
    by code_simp
  have a: "attr_or_None [(S ''version'', PInt 2 :: str pyval), (S ''height'', PInt 24)] ''width'' = PNone"
    by code_simp
  show ?thesis
    using l d a header_missing_field [OF l, simplified d, simplified]
    by simp
qed


text \<open>
  C8, as stated, fails: the theme object is unpacked by keyword. In the line below the
  first key of the theme object is \<open>bg\<close>; its value becomes the field \<open>bg\<close> of the
  theme, not \<open>fg\<close> as the positional reading has it.
\<close>

theorem theme_not_positional:
  "json_loads (\<lambda>t. t)
     (S ''{\"version\": 2, \"width\": 80, \"height\": 24, \"theme\": {\"bg\": \"#ffffff\", \"fg\": \"#000000\", \"palette\": \"p\"}}'')
     = Inr (PDict [(S ''version'', PInt 2), (S ''width'', PInt 80), (S ''height'', PInt 24),
                   (S ''theme'', PDict [(S ''bg'', PStr (S ''#ffffff'')),
                                        (S ''fg'', PStr (S ''#000000'')),
                                        (S ''palette'', PStr (S ''p''))])])
   \<and> header_from_json_line (\<lambda>t. t)
     (S ''{\"version\": 2, \"width\": 80, \"height\": 24, \"theme\": {\"bg\": \"#ffffff\", \"fg\": \"#000000\", \"palette\": \"p\"}}'')
     = Inr \<lparr>version = 2, width = 80, height = 24,
            theme = Some \<lparr>fg = PStr (S ''#000000''), bg = PStr (S ''#ffffff''),
                          palette = PStr (S ''p'')\<rparr>\<rparr>
   \<and> theme_positional (PDict [(S ''bg'', PStr (S ''#ffffff'') :: str pyval),
                               (S ''fg'', PStr (S ''#000000'')), (S ''palette'', PStr (S ''p''))])
     = Inr \<lparr>fg = PStr (S ''#ffffff''), bg = PStr (S ''#000000''), palette = PStr (S ''p'')\<rparr>
   \<and> theme_from_kwargs (PDict [(S ''bg'', PStr (S ''#ffffff'') :: str pyval),
                               (S ''fg'', PStr (S ''#000000'')), (S ''palette'', PStr (S ''p''))])
     \<noteq> theme_positional (PDict [(S ''bg'', PStr (S ''#ffffff'')),
                               (S ''fg'', PStr (S ''#000000'')), (S ''palette'', PStr (S ''p''))])"
  by code_simp


text \<open>
  C8, amended. When the object of a header line has a theme that is not \<open>null\<close>, the
  theme is built from it by key: the value under \<open>fg\<close> becomes \<open>fg\<close>, the value
  under \<open>bg\<close> becomes \<open>bg\<close>, the value under \<open>palette\<close> becomes \<open>palette\<close>,
  whatever the order of the keys, and this theme is attached to the reconstructed header.
\<close>

theorem theme_by_name:
  assumes "json_loads ff line = Inr (PDict attrs)"
    and "dict_get attrs (S ''theme'') = Some v" and "v \<noteq> PNone"
  shows "(\<forall>sub a b c.
            v = PDict sub \<and> dict_get sub (S ''fg'') = Some a \<and> dict_get sub (S ''bg'') = Some b
            \<and> dict_get sub (S ''palette'') = Some c
            \<and> list_all (\<lambda>k. k = S ''fg'' \<or> k = S ''bg'' \<or> k = S ''palette'') (map fst sub) \<longrightarrow>
            header_from_json_line ff line
              = AsciiCastHeader_new (attr_or_None attrs ''version'') (attr_or_None attrs ''width'')
                  (attr_or_None attrs ''height'') (PTheme a b c))
         \<and> (\<forall>h t. header_from_json_line ff line = Inr h \<and> theme h = Some t \<longrightarrow>
              (\<exists>sub. v = PDict sub \<and> dict_get sub (S ''fg'') = Some (fg t)
                 \<and> dict_get sub (S ''bg'') = Some (bg t)
                 \<and> dict_get sub (S ''palette'') = Some (palette t)))"
proof -
  have a: "attr_or_None attrs ''theme'' = v" using assms(2) by (simp add: attr_or_None_def)
  show ?thesis
  proof (intro conjI allI impI)
    fix sub a b c
    assume "v = PDict sub \<and> dict_get sub (S ''fg'') = Some a \<and> dict_get sub (S ''bg'') = Some b
            \<and> dict_get sub (S ''palette'') = Some c
            \<and> list_all (\<lambda>k. k = S ''fg'' \<or> k = S ''bg'' \<or> k = S ''palette'') (map fst sub)"
    then show "header_from_json_line ff line
              = AsciiCastHeader_new (attr_or_None attrs ''version'') (attr_or_None attrs ''width'')
                  (attr_or_None attrs ''height'') (PTheme a b c)"
      using assms(1) a
      by (simp add: header_from_json_line_def header_of_attributes_def theme_from_kwargs_def)
  next
    fix h t
    assume ht: "header_from_json_line ff line = Inr h \<and> theme h = Some t"
    then obtain t' where t': "theme_from_kwargs v = Inr t'"
      and n: "AsciiCastHeader_new (attr_or_None attrs ''version'') (attr_or_None attrs ''width'')
                  (attr_or_None attrs ''height'') (PTheme (fg t') (bg t') (palette t')) = Inr h"
      using assms(1) assms(3) a
      by (auto simp: header_from_json_line_def header_of_attributes_def split: sum.splits)
    have "theme h = Some t'" using n
      by (auto simp: AsciiCastHeader_new_def split: option.splits if_splits pyval.splits)
    then have "t' = t" using ht by simp
    then show "\<exists>sub. v = PDict sub \<and> dict_get sub (S ''fg'') = Some (fg t)
                 \<and> dict_get sub (S ''bg'') = Some (bg t)
                 \<and> dict_get sub (S ''palette'') = Some (palette t)"
      using t'
      by (auto simp: theme_from_kwargs_def split: pyval.splits option.splits if_splits)
  qed
qed

theorem theme_by_name_witness:
  "header_from_json_line (\<lambda>t. t)
     (S ''{\"theme\": {\"palette\": \"p\", \"bg\": \"#ffffff\", \"fg\": \"#000000\"}, \"height\": 24, \"width\": 80, \"version\": 2}'')
   = AsciiCastHeader_new (PInt 2) (PInt 80) (PInt 24)
       (PTheme (PStr (S ''#000000'')) (PStr (S ''#ffffff'')) (PStr (S ''p'')))
   \<and> AsciiCastHeader_new (PInt 2) (PInt 80) (PInt 24)
       (PTheme (PStr (S ''#000000'')) (PStr (S ''#ffffff'')) (PStr (S ''p'') :: str pyval))
     = Inr \<lparr>version = 2, width = 80, height = 24,
            theme = Some \<lparr>fg = PStr (S ''#000000''), bg = PStr (S ''#ffffff''),
                          palette = PStr (S ''p'')\<rparr>\<rparr>"
proof -
  let ?sub = "[(S ''palette'', PStr (S ''p'') :: str pyval), (S ''bg'', PStr (S ''#ffffff'')),
               (S ''fg'', PStr (S ''#000000''))]"
  let ?attrs = "[(S ''theme'', PDict ?sub), (S ''height'', PInt 24), (S ''width'', PInt 80),
                 (S ''version'', PInt 2)]"
  have l: "json_loads (\<lambda>t. t)
     (S ''{\"theme\": {\"palette\": \"p\", \"bg\": \"#ffffff\", \"fg\": \"#000000\"}, \"height\": 24, \"width\": 80, \"version\": 2}'')
     = Inr (PDict ?attrs)"
    by code_simp
  have t: "dict_get ?attrs (S ''theme'') = Some (PDict ?sub)" by code_simp
  have n: "PDict ?sub \<noteq> PNone" by simp
  have s: "dict_get ?sub (S ''fg'') = Some (PStr (S ''#000000''))"
    "dict_get ?sub (S ''bg'') = Some (PStr (S ''#ffffff''))"
    "dict_get ?sub (S ''palette'') = Some (PStr (S ''p''))"
    "list_all (\<lambda>k. k = S ''fg'' \<or> k = S ''bg'' \<or> k = S ''palette'') (map fst ?sub)"
    by code_simp+
  have a: "attr_or_None ?attrs ''version'' = PInt 2" "attr_or_None ?attrs ''width'' = PInt 80"
    "attr_or_None ?attrs ''height'' = PInt 24"
    by code_simp+
  have k: "AsciiCastHeader_new (PInt 2) (PInt 80) (PInt 24)
       (PTheme (PStr (S ''#000000'')) (PStr (S ''#ffffff'')) (PStr (S ''p'') :: str pyval))
     = Inr \<lparr>version = 2, width = 80, height = 24,
            theme = Some \<lparr>fg = PStr (S ''#000000''), bg = PStr (S ''#ffffff''),
                          palette = PStr (S ''p'')\<rparr>\<rparr>"
    by (simp add: AsciiCastHeader_new_def header_types_def)
  from theme_by_name [OF l t n]
  have "header_from_json_line (\<lambda>t. t)
     (S ''{\"theme\": {\"palette\": \"p\", \"bg\": \"#ffffff\", \"fg\": \"#000000\"}, \"height\": 24, \"width\": 80, \"version\": 2}'')
     = AsciiCastHeader_new (attr_or_None ?attrs ''version'') (attr_or_None ?attrs ''width'')
         (attr_or_None ?attrs ''height'')
         (PTheme (PStr (S ''#000000'')) (PStr (S ''#ffffff'')) (PStr (S ''p'')))"
    using s by blast
  then show ?thesis using k by (simp only: a)
qed

end
